theory Spec2Isabelle
  imports Main
begin

section \<open>Errors\<close>

text \<open>
  Everything the TypeScript sources throw, or receive as a rejected promise, is a value
  of this type: \<open>Error\<close> is \<^verbatim>\<open>new Error(message)\<close>, \<open>AcquireLockError\<close> is the
  subclass declared in the utilities, \<open>AWSError\<close> is what the aws-sdk client rejects
  with (its \<^verbatim>\<open>code\<close>) and \<open>ErrnoException\<close> what Node's \<^verbatim>\<open>fs\<close> throws
  (its \<^verbatim>\<open>code\<close>).
\<close>

datatype error =
    Error string
  | AcquireLockError string
  | AWSError string
  | ErrnoException string

section \<open>The two capability interfaces\<close>

text \<open>
  An object implementing \<^verbatim>\<open>ILockingManager\<close> or \<^verbatim>\<open>IStorageManager\<close> is a record of
  its methods. A method is a state transformer on the backing store \<open>'l\<close> (or \<open>'s\<close>)
  of the object: it returns what the promise settles to (\<open>Inl\<close> a rejection) and the
  store after the call. (\<open>write\<close> is a reserved word of the theory language, hence
  \<open>write'\<close>.)
\<close>

record 'l ILockingManager =
  lock :: "string \<Rightarrow> 'l \<Rightarrow> (error + bool) \<times> 'l"
  unlock :: "string \<Rightarrow> 'l \<Rightarrow> (error + bool) \<times> 'l"
  isLocked :: "string \<Rightarrow> 'l \<Rightarrow> (error + bool) \<times> 'l"

record 's IStorageManager =
  write' :: "string \<Rightarrow> string \<Rightarrow> 's \<Rightarrow> (error + unit) \<times> 's"
  read :: "string \<Rightarrow> string \<Rightarrow> 's \<Rightarrow> (error + string) \<times> 's"
  delete :: "string \<Rightarrow> 's \<Rightarrow> (error + unit) \<times> 's"
  exists :: "string \<Rightarrow> 's \<Rightarrow> (error + bool) \<times> 's"

section \<open>Lock acquisition with retries\<close>

text \<open>
  \<^verbatim>\<open>waitForTime(ms)\<close> resolves after a timer of \<open>ms\<close> milliseconds. The timers a task
  has awaited are kept, in order, in a list: its length is the number of waits and its
  sum the time requested.
\<close>

definition waitForTime :: "int \<Rightarrow> int list \<Rightarrow> int list" where
  "waitForTime ms timers = timers @ [ms]"

text \<open>
  The \<^verbatim>\<open>for (let i = 0; i < maxRetry; i++)\<close> loop of \<^verbatim>\<open>acquireLock\<close>, entered at
  counter \<open>i\<close>. The state is the backing store of the locking manager and the timers
  awaited so far. A rejected \<^verbatim>\<open>lock\<close> leaves the function at once, as the exception
  does at the \<^verbatim>\<open>await\<close>.
\<close>

function acquireLock_loop ::
  "string \<Rightarrow> 'l ILockingManager \<Rightarrow> int \<Rightarrow> int \<Rightarrow> int \<Rightarrow> 'l \<times> int list
    \<Rightarrow> (error + unit) \<times> ('l \<times> int list)" where
  "acquireLock_loop pathToLock lockingManager maxRetry retryWait i (s, timers) =
     (if i < maxRetry then
        (case lock lockingManager pathToLock s of
           (Inl e, s') \<Rightarrow> (Inl e, (s', timers))
         | (Inr lockAcquired, s') \<Rightarrow>
             if lockAcquired then (Inr (), (s', timers))
             else acquireLock_loop pathToLock lockingManager maxRetry retryWait (i + 1)
                    (s', if i < maxRetry then waitForTime retryWait timers else timers))
      else (Inl (AcquireLockError (''Could not acquire lock on path '' @ pathToLock @ ''.'')),
            (s, timers)))"
  by pat_completeness auto
termination
  by (relation "measure (\<lambda>(p, lm, maxRetry, w, i, st). nat (maxRetry - i))") auto

definition acquireLock ::
  "string \<Rightarrow> 'l ILockingManager \<Rightarrow> int \<Rightarrow> int \<Rightarrow> 'l \<times> int list
    \<Rightarrow> (error + unit) \<times> ('l \<times> int list)" where
  "acquireLock pathToLock lockingManager maxRetry retryWait st =
     acquireLock_loop pathToLock lockingManager maxRetry retryWait 0 st"

text \<open>The store of a locking manager after \<open>n\<close> successive \<^verbatim>\<open>lock(p)\<close> calls.\<close>

definition lock_store :: "'l ILockingManager \<Rightarrow> string \<Rightarrow> 'l \<Rightarrow> nat \<Rightarrow> 'l" where
  "lock_store lm p s n = ((\<lambda>x. snd (lock lm p x)) ^^ n) s"

text \<open>
  A test double: a locking manager that answers \<^verbatim>\<open>lock\<close> from a script, one entry per
  call, and \<open>false\<close> once the script is used up. Its store is the rest of the script.
\<close>

definition ScriptedLockingManager :: "((error + bool) list) ILockingManager" where
  "ScriptedLockingManager =
     \<lparr> lock = (\<lambda>p script. case script of [] \<Rightarrow> (Inr False, []) | a # rest \<Rightarrow> (a, rest)),
       unlock = (\<lambda>p script. (Inr False, script)),
       isLocked = (\<lambda>p script. (Inr False, script)) \<rparr>"

text \<open>
  Test doubles that record the calls they receive, in order, and otherwise succeed: the
  store of each is its call log.
\<close>

datatype call =
    CallWrite string string
  | CallRead string string
  | CallDelete string
  | CallExists string
  | CallLock string
  | CallUnlock string
  | CallIsLocked string

definition SpyLockingManager :: "(call list) ILockingManager" where
  "SpyLockingManager =
     \<lparr> lock = (\<lambda>p log. (Inr True, log @ [CallLock p])),
       unlock = (\<lambda>p log. (Inr True, log @ [CallUnlock p])),
       isLocked = (\<lambda>p log. (Inr False, log @ [CallIsLocked p])) \<rparr>"

definition SpyStorageManager :: "(call list) IStorageManager" where
  "SpyStorageManager =
     \<lparr> write' = (\<lambda>d p log. (Inr (), log @ [CallWrite d p])),
       read = (\<lambda>p d log. (Inr d, log @ [CallRead p d])),
       delete = (\<lambda>p log. (Inr (), log @ [CallDelete p])),
       exists = (\<lambda>p log. (Inr False, log @ [CallExists p])) \<rparr>"

section \<open>LockableStorageManager\<close>

text \<open>
  The constructor argument: each backend is optional. The state a manager acts on is the
  pair of the storage backend's store and the locking backend's store.
\<close>

record ('s, 'l) LockableStorageMangerInput =
  storageManager :: "'s IStorageManager option"
  lockingManager :: "'l ILockingManager option"

fun LockableStorageManager_read ::
  "('s, 'l) LockableStorageMangerInput \<Rightarrow> string \<Rightarrow> string \<Rightarrow> 's \<times> 'l
    \<Rightarrow> (error + string) \<times> ('s \<times> 'l)" where
  "LockableStorageManager_read params path default' (s, l) =
     (case storageManager params of
        None \<Rightarrow>
          (Inl (Error ''[LockableStorageManager][read] Trying to use storage manager which does not exist.''),
           (s, l))
      | Some sm \<Rightarrow> (case read sm path default' s of (r, s') \<Rightarrow> (r, (s', l))))"

fun LockableStorageManager_write ::
  "('s, 'l) LockableStorageMangerInput \<Rightarrow> string \<Rightarrow> string \<Rightarrow> 's \<times> 'l
    \<Rightarrow> (error + unit) \<times> ('s \<times> 'l)" where
  "LockableStorageManager_write params data path (s, l) =
     (case storageManager params of
        None \<Rightarrow>
          (Inl (Error ''[LockableStorageManager][write] Trying to use storage manager which does not exist.''),
           (s, l))
      | Some sm \<Rightarrow> (case write' sm data path s of (r, s') \<Rightarrow> (r, (s', l))))"

fun LockableStorageManager_delete ::
  "('s, 'l) LockableStorageMangerInput \<Rightarrow> string \<Rightarrow> 's \<times> 'l
    \<Rightarrow> (error + unit) \<times> ('s \<times> 'l)" where
  "LockableStorageManager_delete params path (s, l) =
     (case storageManager params of
        None \<Rightarrow>
          (Inl (Error ''[LockableStorageManager][delete] Trying to use storage manager which does not exist.''),
           (s, l))
      | Some sm \<Rightarrow> (case delete sm path s of (r, s') \<Rightarrow> (r, (s', l))))"

fun LockableStorageManager_exists ::
  "('s, 'l) LockableStorageMangerInput \<Rightarrow> string \<Rightarrow> 's \<times> 'l
    \<Rightarrow> (error + bool) \<times> ('s \<times> 'l)" where
  "LockableStorageManager_exists params path (s, l) =
     (case storageManager params of
        None \<Rightarrow>
          (Inl (Error ''[LockableStorageManager][exists] Trying to use storage manager which does not exist.''),
           (s, l))
      | Some sm \<Rightarrow> (case exists sm path s of (r, s') \<Rightarrow> (r, (s', l))))"

fun LockableStorageManager_lock ::
  "('s, 'l) LockableStorageMangerInput \<Rightarrow> string \<Rightarrow> 's \<times> 'l
    \<Rightarrow> (error + bool) \<times> ('s \<times> 'l)" where
  "LockableStorageManager_lock params path (s, l) =
     (case lockingManager params of
        None \<Rightarrow>
          (Inl (Error ''[LockableStorageManager][lock] Trying to use locking manager which does not exist.''),
           (s, l))
      | Some lm \<Rightarrow> (case lock lm path l of (r, l') \<Rightarrow> (r, (s, l'))))"

fun LockableStorageManager_unlock ::
  "('s, 'l) LockableStorageMangerInput \<Rightarrow> string \<Rightarrow> 's \<times> 'l
    \<Rightarrow> (error + bool) \<times> ('s \<times> 'l)" where
  "LockableStorageManager_unlock params path (s, l) =
     (case lockingManager params of
        None \<Rightarrow>
          (Inl (Error ''[LockableStorageManager][unlock] Trying to use locking manager which does not exist.''),
           (s, l))
      | Some lm \<Rightarrow> (case unlock lm path l of (r, l') \<Rightarrow> (r, (s, l'))))"

fun LockableStorageManager_isLocked ::
  "('s, 'l) LockableStorageMangerInput \<Rightarrow> string \<Rightarrow> 's \<times> 'l
    \<Rightarrow> (error + bool) \<times> ('s \<times> 'l)" where
  "LockableStorageManager_isLocked params path (s, l) =
     (case lockingManager params of
        None \<Rightarrow>
          (Inl (Error ''[LockableStorageManager][isLocked] Trying to use locking manager which does not exist.''),
           (s, l))
      | Some lm \<Rightarrow> (case isLocked lm path l of (r, l') \<Rightarrow> (r, (s, l'))))"

section \<open>The process around a backend\<close>

text \<open>
  The concrete backends talk to an external store (a DynamoDB table, the file system),
  read the clock and print to the console. \<open>clock\<close> is what \<^verbatim>\<open>new Date().getTime()\<close>
  returns, in milliseconds. A console line is kept as the call that printed it:
  \<open>ConsoleErrorJSON prefix tableName e\<close> is \<^verbatim>\<open>console.error\<close> of the prefix followed by
  the JSON text of the table name and the fields of \<open>e\<close>.
\<close>

datatype console_line =
    ConsoleLog string
  | ConsoleErrorObj error
  | ConsoleErrorJSON string string error

record 'b world =
  store :: 'b
  clock :: int
  console :: "console_line list"

definition getTimestamp :: "'b world \<Rightarrow> int" where
  "getTimestamp w = clock w div 1000"

section \<open>DynamoLockingManager\<close>

text \<open>
  The item \<^verbatim>\<open>lock\<close> puts into the table; \<open>item_id\<close> is its attribute \<^verbatim>\<open>id\<close>.
\<close>

record LockItem =
  item_id :: string
  createdAt :: int
  expireAt :: int

text \<open>
  The aws-sdk \<^verbatim>\<open>DocumentClient\<close> is not part of the repository: the manager takes it as
  a parameter. \<open>dynamoDb_put\<close> receives \<^verbatim>\<open>TableName\<close>, \<^verbatim>\<open>Item\<close> and
  \<^verbatim>\<open>ConditionExpression\<close>; \<open>dynamoDb_delete\<close> receives \<^verbatim>\<open>TableName\<close>, the key's
  \<^verbatim>\<open>id\<close> and \<^verbatim>\<open>ConditionExpression\<close>; \<open>dynamoDb_get\<close> receives \<^verbatim>\<open>TableName\<close> and the
  key's \<^verbatim>\<open>id\<close> and answers with \<^verbatim>\<open>response.Item\<close>, if any.
\<close>

record 'db DocumentClient =
  dynamoDb_put :: "string \<Rightarrow> LockItem \<Rightarrow> string \<Rightarrow> 'db \<Rightarrow> (error + unit) \<times> 'db"
  dynamoDb_delete :: "string \<Rightarrow> string \<Rightarrow> string \<Rightarrow> 'db \<Rightarrow> (error + unit) \<times> 'db"
  dynamoDb_get :: "string \<Rightarrow> string \<Rightarrow> 'db \<Rightarrow> (error + LockItem option) \<times> 'db"

record DynamoLockingManager =
  tableName :: string
  timeToLiveDurationInSeconds :: int

text \<open>
  The constructor refuses an empty table name; the credentials only configure the
  client. \<open>None\<close> for the duration is the default of 900 seconds.
\<close>

definition DynamoLockingManager_new :: "string \<Rightarrow> int option \<Rightarrow> error + DynamoLockingManager" where
  "DynamoLockingManager_new tn ttl =
     (if tn = [] then Inl (Error ''[DynamoLockingManager] The table name cannot be empty'')
      else Inr \<lparr> tableName = tn,
                 timeToLiveDurationInSeconds = (case ttl of None \<Rightarrow> 900 | Some d \<Rightarrow> d) \<rparr>)"

definition DynamoLockingManager_lock ::
  "'db DocumentClient \<Rightarrow> DynamoLockingManager \<Rightarrow> string \<Rightarrow> 'db world
    \<Rightarrow> (error + bool) \<times> 'db world" where
  "DynamoLockingManager_lock client this path w =
     (let created = getTimestamp w;
          item = \<lparr> item_id = path, createdAt = created,
                   expireAt = created + timeToLiveDurationInSeconds this \<rparr>
      in case dynamoDb_put client (tableName this) item ''attribute_not_exists(id)'' (store w) of
           (Inr u, db') \<Rightarrow> (Inr True, w\<lparr>store := db'\<rparr>)
         | (Inl e, db') \<Rightarrow>
             (Inr False,
              w\<lparr>store := db',
                console := console w @
                  [ConsoleErrorJSON ''[Error][DynamoLockingManager.lock] '' (tableName this) e]\<rparr>))"

definition DynamoLockingManager_unlock ::
  "'db DocumentClient \<Rightarrow> DynamoLockingManager \<Rightarrow> string \<Rightarrow> 'db world
    \<Rightarrow> (error + bool) \<times> 'db world" where
  "DynamoLockingManager_unlock client this path w =
     (case dynamoDb_delete client (tableName this) path ''attribute_exists(id)'' (store w) of
        (Inr u, db') \<Rightarrow> (Inr True, w\<lparr>store := db'\<rparr>)
      | (Inl e, db') \<Rightarrow>
          (Inr False,
           w\<lparr>store := db',
             console := console w @
               [ConsoleErrorJSON ''[Error][DynamoLockingManager.unlock] '' (tableName this) e]\<rparr>))"

definition DynamoLockingManager_isLocked ::
  "'db DocumentClient \<Rightarrow> DynamoLockingManager \<Rightarrow> string \<Rightarrow> 'db world
    \<Rightarrow> (error + bool) \<times> 'db world" where
  "DynamoLockingManager_isLocked client this path w =
     (case dynamoDb_get client (tableName this) path (store w) of
        (Inr response_Item, db') \<Rightarrow> (Inr (response_Item \<noteq> None), w\<lparr>store := db'\<rparr>)
      | (Inl e, db') \<Rightarrow>
          (Inr False,
           w\<lparr>store := db',
             console := console w @
               [ConsoleErrorJSON ''[Error][DynamoLockingManager.isLocked] '' (tableName this) e]\<rparr>))"

text \<open>The manager as an \<^verbatim>\<open>ILockingManager\<close>.\<close>

definition DynamoLockingManager_object ::
  "'db DocumentClient \<Rightarrow> DynamoLockingManager \<Rightarrow> ('db world) ILockingManager" where
  "DynamoLockingManager_object client this =
     \<lparr> lock = DynamoLockingManager_lock client this,
       unlock = DynamoLockingManager_unlock client this,
       isLocked = DynamoLockingManager_isLocked client this \<rparr>"

text \<open>
  A test double for the client: tables in memory, by name, each a map from \<^verbatim>\<open>id\<close> to
  item. A missing table is rejected with \<^verbatim>\<open>ResourceNotFoundException\<close>, a failed
  condition with \<^verbatim>\<open>ConditionalCheckFailedException\<close>. Nothing removes an item but
  \<open>dynamoDb_delete\<close>: the store's time-to-live deletion is a background process of its
  own and has not run.
\<close>

type_synonym memory_db = "string \<rightharpoonup> (string \<rightharpoonup> LockItem)"

definition MemoryDocumentClient :: "memory_db DocumentClient" where
  "MemoryDocumentClient =
     \<lparr> dynamoDb_put = (\<lambda>tn item cond db.
         case db tn of
           None \<Rightarrow> (Inl (AWSError ''ResourceNotFoundException''), db)
         | Some t \<Rightarrow>
             if cond = ''attribute_not_exists(id)'' \<and> t (item_id item) \<noteq> None
             then (Inl (AWSError ''ConditionalCheckFailedException''), db)
             else (Inr (), db(tn \<mapsto> t(item_id item \<mapsto> item)))),
       dynamoDb_delete = (\<lambda>tn key cond db.
         case db tn of
           None \<Rightarrow> (Inl (AWSError ''ResourceNotFoundException''), db)
         | Some t \<Rightarrow>
             if cond = ''attribute_exists(id)'' \<and> t key = None
             then (Inl (AWSError ''ConditionalCheckFailedException''), db)
             else (Inr (), db(tn \<mapsto> t(key := None)))),
       dynamoDb_get = (\<lambda>tn key db.
         case db tn of
           None \<Rightarrow> (Inl (AWSError ''ResourceNotFoundException''), db)
         | Some t \<Rightarrow> (Inr (t key), db)) \<rparr>"

text \<open>A client on which every call is rejected with the same error.\<close>

definition FailingDocumentClient :: "error \<Rightarrow> unit DocumentClient" where
  "FailingDocumentClient e =
     \<lparr> dynamoDb_put = (\<lambda>tn item cond db. (Inl e, db)),
       dynamoDb_delete = (\<lambda>tn key cond db. (Inl e, db)),
       dynamoDb_get = (\<lambda>tn key db. (Inl e, db)) \<rparr>"

section \<open>LocalFileStorageManager\<close>

text \<open>
  Node's \<^verbatim>\<open>path\<close> and \<^verbatim>\<open>fs\<close> modules are not part of the repository either: the
  manager takes the functions it calls as a parameter. \<open>mkdirSync\<close> is the call with
  \<^verbatim>\<open>{ recursive: true }\<close>, \<open>readFileSync\<close> the call with \<^verbatim>\<open>'utf-8'\<close>.
\<close>

record 'fs NodeFs =
  path_join :: "string \<Rightarrow> string \<Rightarrow> string"
  path_dirname :: "string \<Rightarrow> string"
  existsSync :: "string \<Rightarrow> 'fs \<Rightarrow> bool"
  mkdirSync :: "string \<Rightarrow> 'fs \<Rightarrow> (error + unit) \<times> 'fs"
  writeFileSync :: "string \<Rightarrow> string \<Rightarrow> 'fs \<Rightarrow> (error + unit) \<times> 'fs"
  readFileSync :: "string \<Rightarrow> 'fs \<Rightarrow> (error + string) \<times> 'fs"
  unlinkSync :: "string \<Rightarrow> 'fs \<Rightarrow> (error + unit) \<times> 'fs"

text \<open>\<^verbatim>\<open>err.code\<close>: set on the errors of \<^verbatim>\<open>fs\<close> and of the aws-sdk, undefined otherwise.\<close>

fun error_code :: "error \<Rightarrow> string option" where
  "error_code (ErrnoException c) = Some c"
| "error_code (AWSError c) = Some c"
| "error_code (Error m) = None"
| "error_code (AcquireLockError m) = None"

definition LocalFileStorageManager_write ::
  "'fs NodeFs \<Rightarrow> string \<Rightarrow> string \<Rightarrow> string \<Rightarrow> 'fs world \<Rightarrow> (error + unit) \<times> 'fs world" where
  "LocalFileStorageManager_write node rootDir data relativePath w =
     (let fullPath = path_join node rootDir relativePath;
          directory = path_dirname node fullPath
      in case (if \<not> existsSync node directory (store w) then mkdirSync node directory (store w)
               else (Inr (), store w)) of
           (Inl e, fs1) \<Rightarrow> (Inl e, w\<lparr>store := fs1\<rparr>)
         | (Inr u, fs1) \<Rightarrow>
             (case writeFileSync node fullPath data fs1 of
                (Inl e, fs2) \<Rightarrow> (Inl e, w\<lparr>store := fs2\<rparr>)
              | (Inr v, fs2) \<Rightarrow>
                  (Inr (),
                   w\<lparr>store := fs2,
                     console := console w @
                       [ConsoleLog (''File '' @ fullPath @ '' has been written successfully.'')]\<rparr>)))"

definition LocalFileStorageManager_read ::
  "'fs NodeFs \<Rightarrow> string \<Rightarrow> string \<Rightarrow> string \<Rightarrow> 'fs world \<Rightarrow> (error + string) \<times> 'fs world" where
  "LocalFileStorageManager_read node rootDir relativePath default' w =
     (let fullPath = path_join node rootDir relativePath
      in case readFileSync node fullPath (store w) of
           (Inr content, fs1) \<Rightarrow> (Inr content, w\<lparr>store := fs1\<rparr>)
         | (Inl err, fs1) \<Rightarrow>
             (Inr default', w\<lparr>store := fs1, console := console w @ [ConsoleErrorObj err]\<rparr>))"

definition LocalFileStorageManager_delete ::
  "'fs NodeFs \<Rightarrow> string \<Rightarrow> string \<Rightarrow> 'fs world \<Rightarrow> (error + unit) \<times> 'fs world" where
  "LocalFileStorageManager_delete node rootDir relativePath w =
     (let fullPath = path_join node rootDir relativePath
      in case unlinkSync node fullPath (store w) of
           (Inr u, fs1) \<Rightarrow>
             (Inr (),
              w\<lparr>store := fs1,
                console := console w @
                  [ConsoleLog (''File '' @ fullPath @ '' has been deleted successfully.'')]\<rparr>)
         | (Inl err, fs1) \<Rightarrow>
             if error_code err = Some ''ENOENT''
             then (Inr (),
                   w\<lparr>store := fs1,
                     console := console w @ [ConsoleLog (''File '' @ fullPath @ '' not found.'')]\<rparr>)
             else (Inr (), w\<lparr>store := fs1, console := console w @ [ConsoleErrorObj err]\<rparr>))"

definition LocalFileStorageManager_exists ::
  "'fs NodeFs \<Rightarrow> string \<Rightarrow> string \<Rightarrow> 'fs world \<Rightarrow> (error + bool) \<times> 'fs world" where
  "LocalFileStorageManager_exists node rootDir relativePath w =
     (Inr (existsSync node (path_join node rootDir relativePath) (store w)), w)"

text \<open>The manager as an \<^verbatim>\<open>IStorageManager\<close>.\<close>

definition LocalFileStorageManager_object :: "'fs NodeFs \<Rightarrow> string \<Rightarrow> ('fs world) IStorageManager" where
  "LocalFileStorageManager_object node rootDir =
     \<lparr> write' = LocalFileStorageManager_write node rootDir,
       read = LocalFileStorageManager_read node rootDir,
       delete = LocalFileStorageManager_delete node rootDir,
       exists = LocalFileStorageManager_exists node rootDir \<rparr>"



text \<open>
  A test double for \<^verbatim>\<open>path\<close> and \<^verbatim>\<open>fs\<close>: files and directories in memory, by full
  path, on a volume that may be mounted read-only. \<open>posix_join\<close> and \<open>posix_dirname\<close>
  are the functions of \<^verbatim>\<open>path\<close> on paths that need no normalisation (no \<^verbatim>\<open>.\<close> or
  \<^verbatim>\<open>..\<close> segment, no doubled or trailing slash).
\<close>

datatype node = File string | Dir

record memory_fs =
  nodes :: "string \<rightharpoonup> node"
  read_only :: bool

definition posix_join :: "string \<Rightarrow> string \<Rightarrow> string" where
  "posix_join a b = (if b = [] then a else if a = [] then b else a @ ''/'' @ b)"

definition posix_dirname :: "string \<Rightarrow> string" where
  "posix_dirname p =
     (if CHR ''/'' \<notin> set p then ''.''
      else let d = rev (tl (dropWhile (\<lambda>c. c \<noteq> CHR ''/'') (rev p)))
           in if d = [] then ''/'' else d)"

text \<open>The directories above a path, outermost first.\<close>

definition parent_dirs :: "string \<Rightarrow> string list" where
  "parent_dirs p = map (\<lambda>i. take i p) (filter (\<lambda>i. p ! i = CHR ''/'') [1..<length p])"

definition is_file :: "memory_fs \<Rightarrow> string \<Rightarrow> bool" where
  "is_file m p = (case nodes m p of Some (File d) \<Rightarrow> True | Some Dir \<Rightarrow> False | None \<Rightarrow> False)"

definition MemoryFs :: "memory_fs NodeFs" where
  "MemoryFs =
     \<lparr> path_join = posix_join,
       path_dirname = posix_dirname,
       existsSync = (\<lambda>p m. nodes m p \<noteq> None),
       mkdirSync = (\<lambda>p m.
         if read_only m then (Inl (ErrnoException ''EROFS''), m)
         else if list_ex (is_file m) (parent_dirs p) then (Inl (ErrnoException ''ENOTDIR''), m)
         else if is_file m p then (Inl (ErrnoException ''EEXIST''), m)
         else (Inr (), m\<lparr>nodes := nodes m ++ map_of (map (\<lambda>q. (q, Dir)) (parent_dirs p @ [p]))\<rparr>)),
       writeFileSync = (\<lambda>p d m.
         case nodes m p of
           Some Dir \<Rightarrow> (Inl (ErrnoException ''EISDIR''), m)
         | Some (File old) \<Rightarrow>
             if read_only m then (Inl (ErrnoException ''EROFS''), m)
             else (Inr (), m\<lparr>nodes := (nodes m)(p \<mapsto> File d)\<rparr>)
         | None \<Rightarrow>
             (case nodes m (posix_dirname p) of
                None \<Rightarrow> (Inl (ErrnoException ''ENOENT''), m)
              | Some (File x) \<Rightarrow> (Inl (ErrnoException ''ENOTDIR''), m)
              | Some Dir \<Rightarrow>
                  if read_only m then (Inl (ErrnoException ''EROFS''), m)
                  else (Inr (), m\<lparr>nodes := (nodes m)(p \<mapsto> File d)\<rparr>))),
       readFileSync = (\<lambda>p m.
         case nodes m p of
           None \<Rightarrow> (Inl (ErrnoException ''ENOENT''), m)
         | Some Dir \<Rightarrow> (Inl (ErrnoException ''EISDIR''), m)
         | Some (File d) \<Rightarrow> (Inr d, m)),
       unlinkSync = (\<lambda>p m.
         case nodes m p of
           None \<Rightarrow> (Inl (ErrnoException ''ENOENT''), m)
         | Some Dir \<Rightarrow> (Inl (ErrnoException ''EISDIR''), m)
         | Some (File d) \<Rightarrow>
             if read_only m then (Inl (ErrnoException ''EROFS''), m)
             else (Inr (), m\<lparr>nodes := (nodes m)(p := None)\<rparr>)) \<rparr>"

text \<open>A file system on which nothing exists and every call fails with the same error.\<close>

definition FailingFs :: "error \<Rightarrow> unit NodeFs" where
  "FailingFs e =
     \<lparr> path_join = posix_join,
       path_dirname = posix_dirname,
       existsSync = (\<lambda>p m. False),
       mkdirSync = (\<lambda>p m. (Inl e, m)),
       writeFileSync = (\<lambda>p d m. (Inl e, m)),
       readFileSync = (\<lambda>p m. (Inl e, m)),
       unlinkSync = (\<lambda>p m. (Inl e, m)) \<rparr>"

section \<open>Properties of lock acquisition\<close>

lemma lock_store_0: "lock_store lm p s 0 = s"
  by (simp add: lock_store_def)

lemma lock_store_Suc: "lock_store lm p s (Suc n) = lock_store lm p (snd (lock lm p s)) n"
  by (simp add: lock_store_def funpow_swap1 del: funpow.simps add: funpow_Suc_right)

lemma lock_store_step: "lock_store lm p s (Suc n) = snd (lock lm p (lock_store lm p s n))"
  by (simp add: lock_store_def)

lemma acquireLock_loop_done:
  "\<not> i < maxRetry \<Longrightarrow>
   acquireLock_loop p lm maxRetry w i (s, timers) =
   (Inl (AcquireLockError (''Could not acquire lock on path '' @ p @ ''.'')), (s, timers))"
  by simp

lemma acquireLock_loop_throw:
  "i < maxRetry \<Longrightarrow> fst (lock lm p s) = Inl e \<Longrightarrow>
   acquireLock_loop p lm maxRetry w i (s, timers) = (Inl e, (snd (lock lm p s), timers))"
  by (cases "lock lm p s") simp

lemma acquireLock_loop_acquired:
  "i < maxRetry \<Longrightarrow> fst (lock lm p s) = Inr True \<Longrightarrow>
   acquireLock_loop p lm maxRetry w i (s, timers) = (Inr (), (snd (lock lm p s), timers))"
  by (cases "lock lm p s") simp

lemma acquireLock_loop_retry:
  "i < maxRetry \<Longrightarrow> fst (lock lm p s) = Inr False \<Longrightarrow>
   acquireLock_loop p lm maxRetry w i (s, timers) =
   acquireLock_loop p lm maxRetry w (i + 1) (snd (lock lm p s), timers @ [w])"
  by (cases "lock lm p s") (simp add: waitForTime_def)

declare acquireLock_loop.simps [simp del]

lemma acquireLock_loop_skip:
  assumes "\<forall>j<k. fst (lock lm p (lock_store lm p s j)) = Inr False"
    and "i + int k \<le> maxRetry"
  shows "acquireLock_loop p lm maxRetry w i (s, timers) =
         acquireLock_loop p lm maxRetry w (i + int k) (lock_store lm p s k, timers @ replicate k w)"
  using assms
proof (induction k arbitrary: i s timers)
  case 0
  then show ?case by (simp add: lock_store_0)
next
  case (Suc k)
  from Suc.prems(1) have first: "fst (lock lm p s) = Inr False"
    by (metis lock_store_0 zero_less_Suc)
  have rest: "\<forall>j<k. fst (lock lm p (lock_store lm p (snd (lock lm p s)) j)) = Inr False"
  proof (intro allI impI)
    fix j assume "j < k"
    then have "fst (lock lm p (lock_store lm p s (Suc j))) = Inr False"
      using Suc.prems(1) by simp
    then show "fst (lock lm p (lock_store lm p (snd (lock lm p s)) j)) = Inr False"
      by (simp add: lock_store_Suc)
  qed
  have lt: "i < maxRetry" using Suc.prems(2) by simp
  have "acquireLock_loop p lm maxRetry w i (s, timers) =
        acquireLock_loop p lm maxRetry w (i + 1) (snd (lock lm p s), timers @ [w])"
    by (rule acquireLock_loop_retry [OF lt first])
  also have "\<dots> = acquireLock_loop p lm maxRetry w (i + 1 + int k)
          (lock_store lm p (snd (lock lm p s)) k, (timers @ [w]) @ replicate k w)"
    using Suc.IH [OF rest, of "i + 1" "timers @ [w]"] Suc.prems(2) by simp
  finally show ?case
    by (simp add: lock_store_Suc replicate_app_Cons_same add.commute add.left_commute)
qed

text \<open>
  Claim C1. The claim: when every \<^verbatim>\<open>lock(p)\<close> of the \<open>maxRetry\<close> attempts returns
  false, no wait follows the last attempt, so \<open>maxRetry - 1\<close> waits occur; with
  \<open>maxRetry = 1\<close> there is no wait at all. The code: the guard \<^verbatim>\<open>if (i < maxRetry)\<close>
  around the wait repeats the loop condition and is always true, so a wait follows every
  unsuccessful attempt, the last one too: \<open>maxRetry\<close> waits of \<open>retryWait\<close> each are
  awaited before \<open>AcquireLockError\<close> is thrown.
\<close>

theorem acquireLock_exhausted_waits_after_every_attempt:
  assumes "\<forall>j < nat maxRetry. fst (lock lm p (lock_store lm p s j)) = Inr False"
  shows "acquireLock p lm maxRetry w (s, timers) =
         (Inl (AcquireLockError (''Could not acquire lock on path '' @ p @ ''.'')),
          (lock_store lm p s (nat maxRetry), timers @ replicate (nat maxRetry) w))"
proof (cases "0 \<le> maxRetry")
  case True
  have "acquireLock_loop p lm maxRetry w 0 (s, timers) =
        acquireLock_loop p lm maxRetry w (0 + int (nat maxRetry))
          (lock_store lm p s (nat maxRetry), timers @ replicate (nat maxRetry) w)"
    by (rule acquireLock_loop_skip [OF assms]) (use True in simp)
  also have "\<dots> = (Inl (AcquireLockError (''Could not acquire lock on path '' @ p @ ''.'')),
          (lock_store lm p s (nat maxRetry), timers @ replicate (nat maxRetry) w))"
    by (rule acquireLock_loop_done) simp
  finally show ?thesis by (simp only: acquireLock_def)
next
  case False
  then have "\<not> 0 < maxRetry" and "nat maxRetry = 0" by simp_all
  then show ?thesis
    by (simp add: acquireLock_def acquireLock_loop_done lock_store_0)
qed

text \<open>
  With \<open>maxRetry = 1\<close> and a manager whose first \<^verbatim>\<open>lock\<close> returns false, one wait of
  400 ms is awaited before the failure.
\<close>

theorem acquireLock_exhausted_waits_after_every_attempt_witness:
  "fst (lock ScriptedLockingManager ''a''
          (lock_store ScriptedLockingManager ''a'' [Inr False] 0)) = Inr False
   \<and> acquireLock ''a'' ScriptedLockingManager 1 400 ([Inr False], []) =
       (Inl (AcquireLockError ''Could not acquire lock on path a.''), ([], [400]))"
proof -
  have h: "\<forall>j < nat 1. fst (lock ScriptedLockingManager ''a''
              (lock_store ScriptedLockingManager ''a'' [Inr False] j)) = Inr False"
    by (simp add: lock_store_def ScriptedLockingManager_def)
  from acquireLock_exhausted_waits_after_every_attempt [OF h, of 400 "[]"]
  show ?thesis by (simp add: lock_store_def ScriptedLockingManager_def)
qed

text \<open>
  Claim C4. If the attempts before attempt \<open>k\<close> return false and attempt \<open>k\<close> (counted
  from 0, within the \<open>maxRetry\<close> attempts) is rejected with \<open>e\<close>, then
  \<^verbatim>\<open>acquireLock\<close> is rejected with the same \<open>e\<close>; the store is the one that rejected call
  left, so no further \<^verbatim>\<open>lock\<close> is made, and the timers are the \<open>k\<close> waits that
  preceded it, so no further wait is made.
\<close>

theorem acquireLock_propagates_lock_error:
  assumes "int k < maxRetry"
    and "\<forall>j<k. fst (lock lm p (lock_store lm p s j)) = Inr False"
    and "fst (lock lm p (lock_store lm p s k)) = Inl e"
  shows "acquireLock p lm maxRetry w (s, timers) =
         (Inl e, (lock_store lm p s (Suc k), timers @ replicate k w))"
proof -
  have "acquireLock_loop p lm maxRetry w 0 (s, timers) =
        acquireLock_loop p lm maxRetry w (0 + int k) (lock_store lm p s k, timers @ replicate k w)"
    by (rule acquireLock_loop_skip [OF assms(2)]) (use assms(1) in simp)
  also have "\<dots> = (Inl e, (snd (lock lm p (lock_store lm p s k)), timers @ replicate k w))"
    by (rule acquireLock_loop_throw) (use assms in simp_all)
  finally show ?thesis by (simp only: acquireLock_def lock_store_step)
qed

text \<open>
  A manager answering false, then a throttling error, then true: the error comes out of
  \<^verbatim>\<open>acquireLock\<close> after one wait, and the third answer is never asked for.
\<close>

theorem acquireLock_propagates_lock_error_witness:
  "int 1 < 5
   \<and> fst (lock ScriptedLockingManager ''a''
         (lock_store ScriptedLockingManager ''a''
            [Inr False, Inl (AWSError ''ThrottlingException''), Inr True] 0)) = Inr False
   \<and> fst (lock ScriptedLockingManager ''a''
         (lock_store ScriptedLockingManager ''a''
            [Inr False, Inl (AWSError ''ThrottlingException''), Inr True] 1)) =
       Inl (AWSError ''ThrottlingException'')
   \<and> acquireLock ''a'' ScriptedLockingManager 5 400
         ([Inr False, Inl (AWSError ''ThrottlingException''), Inr True], []) =
       (Inl (AWSError ''ThrottlingException''), ([Inr True], [400]))"
proof -
  let ?script = "[Inr False, Inl (AWSError ''ThrottlingException''), Inr True]"
  have h1: "int 1 < 5" by simp
  have h2: "\<forall>j<1. fst (lock ScriptedLockingManager ''a''
              (lock_store ScriptedLockingManager ''a'' ?script j)) = Inr False"
    by (simp add: lock_store_def ScriptedLockingManager_def)
  have h3: "fst (lock ScriptedLockingManager ''a''
              (lock_store ScriptedLockingManager ''a'' ?script 1)) =
            Inl (AWSError ''ThrottlingException'')"
    by (simp add: lock_store_def ScriptedLockingManager_def)
  from acquireLock_propagates_lock_error [OF h1 h2 h3, of 400 "[]"]
  show ?thesis by (simp add: lock_store_def ScriptedLockingManager_def numeral_2_eq_2)
qed

text \<open>
  Claim C5. If the attempts before attempt \<open>k\<close> return false and attempt \<open>k\<close> (counted
  from 0, within the \<open>maxRetry\<close> attempts) returns true, then \<^verbatim>\<open>acquireLock\<close> returns
  successfully; the store is the one that successful call left, so no further
  \<^verbatim>\<open>lock\<close> is made, and exactly the \<open>k\<close> waits between the attempts were awaited.
\<close>

theorem acquireLock_returns_at_first_success:
  assumes "int k < maxRetry"
    and "\<forall>j<k. fst (lock lm p (lock_store lm p s j)) = Inr False"
    and "fst (lock lm p (lock_store lm p s k)) = Inr True"
  shows "acquireLock p lm maxRetry w (s, timers) =
         (Inr (), (lock_store lm p s (Suc k), timers @ replicate k w))"
proof -
  have "acquireLock_loop p lm maxRetry w 0 (s, timers) =
        acquireLock_loop p lm maxRetry w (0 + int k) (lock_store lm p s k, timers @ replicate k w)"
    by (rule acquireLock_loop_skip [OF assms(2)]) (use assms(1) in simp)
  also have "\<dots> = (Inr (), (snd (lock lm p (lock_store lm p s k)), timers @ replicate k w))"
    by (rule acquireLock_loop_acquired) (use assms in simp_all)
  finally show ?thesis by (simp only: acquireLock_def lock_store_step)
qed

text \<open>
  \<open>maxRetry = 3\<close>, \<open>retryWait = 100\<close>, a manager answering false, false, true: success
  on the third attempt after two waits of 100 ms, the fourth answer never asked for.
\<close>

theorem acquireLock_returns_at_first_success_witness:
  "int 2 < 3
   \<and> fst (lock ScriptedLockingManager ''a''
         (lock_store ScriptedLockingManager ''a'' [Inr False, Inr False, Inr True, Inr True] 0)) =
       Inr False
   \<and> fst (lock ScriptedLockingManager ''a''
         (lock_store ScriptedLockingManager ''a'' [Inr False, Inr False, Inr True, Inr True] 1)) =
       Inr False
   \<and> fst (lock ScriptedLockingManager ''a''
         (lock_store ScriptedLockingManager ''a'' [Inr False, Inr False, Inr True, Inr True] 2)) =
       Inr True
   \<and> acquireLock ''a'' ScriptedLockingManager 3 100
         ([Inr False, Inr False, Inr True, Inr True], []) =
       (Inr (), ([Inr True], [100, 100]))"
proof -
  let ?script = "[Inr False, Inr False, Inr True, Inr True]"
  have h1: "int 2 < 3" by simp
  have h2: "\<forall>j<2. fst (lock ScriptedLockingManager ''a''
              (lock_store ScriptedLockingManager ''a'' ?script j)) = Inr False"
    by (simp add: lock_store_def ScriptedLockingManager_def less_Suc_eq numeral_2_eq_2)
  have h3: "fst (lock ScriptedLockingManager ''a''
              (lock_store ScriptedLockingManager ''a'' ?script 2)) = Inr True"
    by (simp add: lock_store_def ScriptedLockingManager_def numeral_2_eq_2)
  from acquireLock_returns_at_first_success [OF h1 h2 h3, of 100 "[]"]
  show ?thesis
    by (simp add: lock_store_def ScriptedLockingManager_def numeral_2_eq_2 numeral_3_eq_3)
qed

text \<open>
  Claim C6. With \<open>maxRetry = 0\<close> \<^verbatim>\<open>acquireLock\<close> fails with \<open>AcquireLockError\<close>, whose
  message names the path; the store of the locking manager and the timers are untouched:
  no \<^verbatim>\<open>lock\<close> call, no wait.
\<close>

theorem acquireLock_zero_retries:
  "acquireLock p lm 0 w (s, timers) =
   (Inl (AcquireLockError (''Could not acquire lock on path '' @ p @ ''.'')), (s, timers))"
  by (simp only: acquireLock_def acquireLock_loop_done less_irrefl not_False_eq_True)

text \<open>On a manager that records its calls, the call log stays empty.\<close>

theorem acquireLock_zero_retries_witness:
  "acquireLock ''a'' SpyLockingManager 0 400 ([], []) =
   (Inl (AcquireLockError ''Could not acquire lock on path a.''), ([], []))"
  using acquireLock_zero_retries [of "''a''" SpyLockingManager 400 "[]" "[]"] by simp

section \<open>Properties of LockableStorageManager\<close>

text \<open>
  Claim C2. On a manager constructed without a storage backend, \<^verbatim>\<open>write\<close>, \<^verbatim>\<open>read\<close>,
  \<^verbatim>\<open>delete\<close> and \<^verbatim>\<open>exists\<close> each fail with the configuration error of that method and
  change nothing; on a manager constructed without a locking backend, \<^verbatim>\<open>lock\<close>,
  \<^verbatim>\<open>unlock\<close> and \<^verbatim>\<open>isLocked\<close> do. Whatever the other backend is, the operations of a
  backend that was supplied are those of the backend itself, on its own store: they
  return what it returns.
\<close>

theorem LockableStorageManager_missing_backend:
  "(storageManager params = None \<longrightarrow>
      LockableStorageManager_write params d p (s, l) =
        (Inl (Error ''[LockableStorageManager][write] Trying to use storage manager which does not exist.''), (s, l))
    \<and> LockableStorageManager_read params p d (s, l) =
        (Inl (Error ''[LockableStorageManager][read] Trying to use storage manager which does not exist.''), (s, l))
    \<and> LockableStorageManager_delete params p (s, l) =
        (Inl (Error ''[LockableStorageManager][delete] Trying to use storage manager which does not exist.''), (s, l))
    \<and> LockableStorageManager_exists params p (s, l) =
        (Inl (Error ''[LockableStorageManager][exists] Trying to use storage manager which does not exist.''), (s, l)))
   \<and> (lockingManager params = None \<longrightarrow>
      LockableStorageManager_lock params p (s, l) =
        (Inl (Error ''[LockableStorageManager][lock] Trying to use locking manager which does not exist.''), (s, l))
    \<and> LockableStorageManager_unlock params p (s, l) =
        (Inl (Error ''[LockableStorageManager][unlock] Trying to use locking manager which does not exist.''), (s, l))
    \<and> LockableStorageManager_isLocked params p (s, l) =
        (Inl (Error ''[LockableStorageManager][isLocked] Trying to use locking manager which does not exist.''), (s, l)))
   \<and> (lockingManager params = Some lm \<longrightarrow>
      LockableStorageManager_lock params p (s, l) = (fst (lock lm p l), (s, snd (lock lm p l)))
    \<and> LockableStorageManager_unlock params p (s, l) = (fst (unlock lm p l), (s, snd (unlock lm p l)))
    \<and> LockableStorageManager_isLocked params p (s, l) =
        (fst (isLocked lm p l), (s, snd (isLocked lm p l))))
   \<and> (storageManager params = Some sm \<longrightarrow>
      LockableStorageManager_write params d p (s, l) = (fst (write' sm d p s), (snd (write' sm d p s), l))
    \<and> LockableStorageManager_read params p d (s, l) = (fst (read sm p d s), (snd (read sm p d s), l))
    \<and> LockableStorageManager_delete params p (s, l) = (fst (delete sm p s), (snd (delete sm p s), l))
    \<and> LockableStorageManager_exists params p (s, l) = (fst (exists sm p s), (snd (exists sm p s), l)))"
  by (simp add: split_beta)

text \<open>
  A manager with only a locking backend and one with only a storage backend, the backends
  recording their calls: the missing family fails, the supplied one succeeds.
\<close>

theorem LockableStorageManager_missing_backend_witness:
  "LockableStorageManager_write \<lparr>storageManager = None, lockingManager = Some SpyLockingManager\<rparr>
      ''data'' ''a'' ((), []) =
     (Inl (Error ''[LockableStorageManager][write] Trying to use storage manager which does not exist.''), ((), []))
   \<and> LockableStorageManager_read \<lparr>storageManager = None, lockingManager = Some SpyLockingManager\<rparr>
      ''a'' ''data'' ((), []) =
     (Inl (Error ''[LockableStorageManager][read] Trying to use storage manager which does not exist.''), ((), []))
   \<and> LockableStorageManager_delete \<lparr>storageManager = None, lockingManager = Some SpyLockingManager\<rparr>
      ''a'' ((), []) =
     (Inl (Error ''[LockableStorageManager][delete] Trying to use storage manager which does not exist.''), ((), []))
   \<and> LockableStorageManager_exists \<lparr>storageManager = None, lockingManager = Some SpyLockingManager\<rparr>
      ''a'' ((), []) =
     (Inl (Error ''[LockableStorageManager][exists] Trying to use storage manager which does not exist.''), ((), []))
   \<and> LockableStorageManager_lock \<lparr>storageManager = None, lockingManager = Some SpyLockingManager\<rparr>
      ''a'' ((), []) = (Inr True, ((), [CallLock ''a'']))
   \<and> LockableStorageManager_unlock \<lparr>storageManager = None, lockingManager = Some SpyLockingManager\<rparr>
      ''a'' ((), []) = (Inr True, ((), [CallUnlock ''a'']))
   \<and> LockableStorageManager_isLocked \<lparr>storageManager = None, lockingManager = Some SpyLockingManager\<rparr>
      ''a'' ((), []) = (Inr False, ((), [CallIsLocked ''a'']))
   \<and> LockableStorageManager_lock \<lparr>storageManager = Some SpyStorageManager, lockingManager = None\<rparr>
      ''a'' ([], ()) =
     (Inl (Error ''[LockableStorageManager][lock] Trying to use locking manager which does not exist.''), ([], ()))
   \<and> LockableStorageManager_unlock \<lparr>storageManager = Some SpyStorageManager, lockingManager = None\<rparr>
      ''a'' ([], ()) =
     (Inl (Error ''[LockableStorageManager][unlock] Trying to use locking manager which does not exist.''), ([], ()))
   \<and> LockableStorageManager_isLocked \<lparr>storageManager = Some SpyStorageManager, lockingManager = None\<rparr>
      ''a'' ([], ()) =
     (Inl (Error ''[LockableStorageManager][isLocked] Trying to use locking manager which does not exist.''), ([], ()))
   \<and> LockableStorageManager_write \<lparr>storageManager = Some SpyStorageManager, lockingManager = None\<rparr>
      ''data'' ''a'' ([], ()) = (Inr (), ([CallWrite ''data'' ''a''], ()))
   \<and> LockableStorageManager_read \<lparr>storageManager = Some SpyStorageManager, lockingManager = None\<rparr>
      ''a'' ''data'' ([], ()) = (Inr ''data'', ([CallRead ''a'' ''data''], ()))
   \<and> LockableStorageManager_delete \<lparr>storageManager = Some SpyStorageManager, lockingManager = None\<rparr>
      ''a'' ([], ()) = (Inr (), ([CallDelete ''a''], ()))
   \<and> LockableStorageManager_exists \<lparr>storageManager = Some SpyStorageManager, lockingManager = None\<rparr>
      ''a'' ([], ()) = (Inr False, ([CallExists ''a''], ()))"
  using
    LockableStorageManager_missing_backend
      [of "\<lparr>storageManager = None, lockingManager = Some SpyLockingManager\<rparr>"
          "''data''" "''a''" "()" "[]" SpyLockingManager]
    LockableStorageManager_missing_backend
      [of "\<lparr>storageManager = Some SpyStorageManager, lockingManager = None\<rparr>"
          "''data''" "''a''" "[]" "()" _ SpyStorageManager]
  by (simp add: SpyLockingManager_def SpyStorageManager_def)

text \<open>
  Claim C3. On a manager with a storage backend, \<^verbatim>\<open>write(d, p)\<close> and \<^verbatim>\<open>delete(p)\<close> are
  one call of the backend's \<^verbatim>\<open>write\<close> and \<^verbatim>\<open>delete\<close> with the same arguments: the
  result and the storage store are those of that single call, whether it succeeds or
  fails, and the store of the locking backend, with any lock held in it, is unchanged. No
  lock is consulted before the mutation.
\<close>

theorem LockableStorageManager_write_delete_only_delegate:
  assumes "storageManager params = Some sm"
  shows "LockableStorageManager_write params d p (s, l) =
           (fst (write' sm d p s), (snd (write' sm d p s), l))
       \<and> LockableStorageManager_delete params p (s, l) =
           (fst (delete sm p s), (snd (delete sm p s), l))"
  using assms by (simp add: split_beta)

text \<open>
  With both backends recording their calls: the storage log gains exactly the one call,
  the locking log gains none.
\<close>

theorem LockableStorageManager_write_delete_only_delegate_witness:
  "LockableStorageManager_write
      \<lparr>storageManager = Some SpyStorageManager, lockingManager = Some SpyLockingManager\<rparr>
      ''data'' ''a'' ([], [CallLock ''b'']) =
     (Inr (), ([CallWrite ''data'' ''a''], [CallLock ''b'']))
   \<and> LockableStorageManager_delete
      \<lparr>storageManager = Some SpyStorageManager, lockingManager = Some SpyLockingManager\<rparr>
      ''a'' ([], [CallLock ''b'']) =
     (Inr (), ([CallDelete ''a''], [CallLock ''b'']))"
  using
    LockableStorageManager_write_delete_only_delegate
      [of "\<lparr>storageManager = Some SpyStorageManager, lockingManager = Some SpyLockingManager\<rparr>"
          SpyStorageManager "''data''" "''a''" "[]" "[CallLock ''b'']"]
  by (simp add: SpyStorageManager_def)

section \<open>Properties of DynamoLockingManager\<close>

text \<open>
  The claim that \<^verbatim>\<open>isLocked\<close> returns false for a record whose expiry has passed fails:
  the record for \<open>''a''\<close> expired at second 900, the clock reads second 1000, the record
  is still in the table and \<^verbatim>\<open>isLocked\<close> returns true. The record is the one \<^verbatim>\<open>lock\<close>
  writes at second 0 with the default duration.
\<close>

theorem DynamoLockingManager_isLocked_expired_record_counterexample:
  "fst (DynamoLockingManager_isLocked MemoryDocumentClient
          \<lparr>tableName = ''locks'', timeToLiveDurationInSeconds = 900\<rparr> ''a''
          \<lparr>store = [''locks'' \<mapsto> [''a'' \<mapsto> \<lparr>item_id = ''a'', createdAt = 0, expireAt = 900\<rparr>]],
           clock = 1000000, console = []\<rparr>) = Inr True
   \<and> getTimestamp
          \<lparr>store = [''locks'' \<mapsto> [''a'' \<mapsto> \<lparr>item_id = ''a'', createdAt = 0, expireAt = 900\<rparr>]],
           clock = 1000000, console = []\<rparr> = 1000
   \<and> fst (DynamoLockingManager_lock MemoryDocumentClient
          \<lparr>tableName = ''locks'', timeToLiveDurationInSeconds = 900\<rparr> ''a''
          \<lparr>store = [''locks'' \<mapsto> Map.empty], clock = 0, console = []\<rparr>) = Inr True
   \<and> fst (dynamoDb_get MemoryDocumentClient ''locks'' ''a''
          (store (snd (DynamoLockingManager_lock MemoryDocumentClient
             \<lparr>tableName = ''locks'', timeToLiveDurationInSeconds = 900\<rparr> ''a''
             \<lparr>store = [''locks'' \<mapsto> Map.empty], clock = 0, console = []\<rparr>)))) =
       Inr (Some \<lparr>item_id = ''a'', createdAt = 0, expireAt = 900\<rparr>)"
  by (simp add: DynamoLockingManager_isLocked_def DynamoLockingManager_lock_def
      MemoryDocumentClient_def getTimestamp_def)

text \<open>
  Claim C7, as the code has it. \<^verbatim>\<open>isLocked(path)\<close> returns true when the table's
  \<^verbatim>\<open>get\<close> answers with an item for the path, whatever the item's \<open>expireAt\<close> and
  whatever the clock, and false when it answers with none: neither \<^verbatim>\<open>isLocked\<close> nor
  \<^verbatim>\<open>lock\<close> compares \<open>expireAt\<close> with the time. An expired lease reads as unlocked
  once the store has removed the record.
\<close>

theorem DynamoLockingManager_isLocked_iff_record_present:
  "(fst (dynamoDb_get client (tableName this) path (store w)) = Inr (Some item) \<longrightarrow>
      fst (DynamoLockingManager_isLocked client this path w) = Inr True)
   \<and> (fst (dynamoDb_get client (tableName this) path (store w)) = Inr None \<longrightarrow>
      fst (DynamoLockingManager_isLocked client this path w) = Inr False)"
  by (cases "dynamoDb_get client (tableName this) path (store w)")
     (auto simp: DynamoLockingManager_isLocked_def)

text \<open>The expired record still in the table, and the table without it.\<close>

theorem DynamoLockingManager_isLocked_iff_record_present_witness:
  "fst (dynamoDb_get MemoryDocumentClient ''locks'' ''a''
          [''locks'' \<mapsto> [''a'' \<mapsto> \<lparr>item_id = ''a'', createdAt = 0, expireAt = 900\<rparr>]]) =
     Inr (Some \<lparr>item_id = ''a'', createdAt = 0, expireAt = 900\<rparr>)
   \<and> fst (DynamoLockingManager_isLocked MemoryDocumentClient
          \<lparr>tableName = ''locks'', timeToLiveDurationInSeconds = 900\<rparr> ''a''
          \<lparr>store = [''locks'' \<mapsto> [''a'' \<mapsto> \<lparr>item_id = ''a'', createdAt = 0, expireAt = 900\<rparr>]],
           clock = 1000000, console = []\<rparr>) = Inr True
   \<and> fst (dynamoDb_get MemoryDocumentClient ''locks'' ''a'' [''locks'' \<mapsto> Map.empty]) = Inr None
   \<and> fst (DynamoLockingManager_isLocked MemoryDocumentClient
          \<lparr>tableName = ''locks'', timeToLiveDurationInSeconds = 900\<rparr> ''a''
          \<lparr>store = [''locks'' \<mapsto> Map.empty], clock = 1000000, console = []\<rparr>) = Inr False"
proof -
  let ?mgr = "\<lparr>tableName = ''locks'', timeToLiveDurationInSeconds = 900\<rparr>"
  let ?item = "\<lparr>item_id = ''a'', createdAt = 0, expireAt = 900\<rparr>"
  let ?held = "\<lparr>store = [''locks'' \<mapsto> [''a'' \<mapsto> ?item]], clock = 1000000, console = []\<rparr>"
  let ?free = "\<lparr>store = [''locks'' \<mapsto> (Map.empty :: string \<rightharpoonup> LockItem)], clock = 1000000,
                console = []\<rparr>"
  have g1: "fst (dynamoDb_get MemoryDocumentClient (tableName ?mgr) ''a'' (store ?held)) =
            Inr (Some ?item)"
    by (simp add: MemoryDocumentClient_def)
  have g2: "fst (dynamoDb_get MemoryDocumentClient (tableName ?mgr) ''a'' (store ?free)) = Inr None"
    by (simp add: MemoryDocumentClient_def)
  from DynamoLockingManager_isLocked_iff_record_present
         [of MemoryDocumentClient ?mgr "''a''" ?held ?item] g1
  have r1: "fst (DynamoLockingManager_isLocked MemoryDocumentClient ?mgr ''a'' ?held) = Inr True"
    by blast
  from DynamoLockingManager_isLocked_iff_record_present
         [of MemoryDocumentClient ?mgr "''a''" ?free] g2
  have r2: "fst (DynamoLockingManager_isLocked MemoryDocumentClient ?mgr ''a'' ?free) = Inr False"
    by blast
  from g1 g2 r1 r2 show ?thesis by simp
qed

text \<open>
  Claim C9. \<^verbatim>\<open>lock\<close>, \<^verbatim>\<open>unlock\<close> and \<^verbatim>\<open>isLocked\<close> of the DynamoDB manager always
  resolve to a boolean. Whenever the underlying \<^verbatim>\<open>put\<close>, \<^verbatim>\<open>delete\<close> or \<^verbatim>\<open>get\<close> is
  rejected, with any error \<open>e\<close>, the result is false.
\<close>

theorem DynamoLockingManager_errors_become_false:
  "(\<exists>b. fst (DynamoLockingManager_lock client this path w) = Inr b)
   \<and> (\<exists>b. fst (DynamoLockingManager_unlock client this path w) = Inr b)
   \<and> (\<exists>b. fst (DynamoLockingManager_isLocked client this path w) = Inr b)
   \<and> (fst (dynamoDb_put client (tableName this)
              \<lparr>item_id = path, createdAt = getTimestamp w,
               expireAt = getTimestamp w + timeToLiveDurationInSeconds this\<rparr>
              ''attribute_not_exists(id)'' (store w)) = Inl e \<longrightarrow>
        fst (DynamoLockingManager_lock client this path w) = Inr False)
   \<and> (fst (dynamoDb_delete client (tableName this) path ''attribute_exists(id)'' (store w)) = Inl e \<longrightarrow>
        fst (DynamoLockingManager_unlock client this path w) = Inr False)
   \<and> (fst (dynamoDb_get client (tableName this) path (store w)) = Inl e \<longrightarrow>
        fst (DynamoLockingManager_isLocked client this path w) = Inr False)"
  by (auto simp: DynamoLockingManager_lock_def DynamoLockingManager_unlock_def
      DynamoLockingManager_isLocked_def Let_def split: prod.splits sum.splits)

text \<open>
  A throttled client gives false for all three methods, and \<^verbatim>\<open>lock\<close> gives the same
  false on a path that is already locked. Over the throttled client \<^verbatim>\<open>acquireLock\<close>
  therefore retries, waits and ends with \<open>AcquireLockError\<close>, as it would on a held
  lock.
\<close>

theorem DynamoLockingManager_errors_become_false_witness:
  "fst (DynamoLockingManager_lock (FailingDocumentClient (AWSError ''ThrottlingException''))
          \<lparr>tableName = ''locks'', timeToLiveDurationInSeconds = 900\<rparr> ''a''
          \<lparr>store = (), clock = 0, console = []\<rparr>) = Inr False
   \<and> fst (DynamoLockingManager_unlock (FailingDocumentClient (AWSError ''ThrottlingException''))
          \<lparr>tableName = ''locks'', timeToLiveDurationInSeconds = 900\<rparr> ''a''
          \<lparr>store = (), clock = 0, console = []\<rparr>) = Inr False
   \<and> fst (DynamoLockingManager_isLocked (FailingDocumentClient (AWSError ''ThrottlingException''))
          \<lparr>tableName = ''locks'', timeToLiveDurationInSeconds = 900\<rparr> ''a''
          \<lparr>store = (), clock = 0, console = []\<rparr>) = Inr False
   \<and> fst (DynamoLockingManager_lock MemoryDocumentClient
          \<lparr>tableName = ''locks'', timeToLiveDurationInSeconds = 900\<rparr> ''a''
          \<lparr>store = [''locks'' \<mapsto> [''a'' \<mapsto> \<lparr>item_id = ''a'', createdAt = 0, expireAt = 900\<rparr>]],
           clock = 0, console = []\<rparr>) = Inr False
   \<and> acquireLock ''a''
          (DynamoLockingManager_object (FailingDocumentClient (AWSError ''ThrottlingException''))
             \<lparr>tableName = ''locks'', timeToLiveDurationInSeconds = 900\<rparr>)
          2 400 (\<lparr>store = (), clock = 0, console = []\<rparr>, []) =
       (Inl (AcquireLockError ''Could not acquire lock on path a.''),
        \<lparr>store = (), clock = 0,
         console =
           [ConsoleErrorJSON ''[Error][DynamoLockingManager.lock] '' ''locks''
              (AWSError ''ThrottlingException''),
            ConsoleErrorJSON ''[Error][DynamoLockingManager.lock] '' ''locks''
              (AWSError ''ThrottlingException'')]\<rparr>,
        [400, 400])"
proof -
  let ?mgr = "\<lparr>tableName = ''locks'', timeToLiveDurationInSeconds = 900\<rparr>"
  let ?e = "AWSError ''ThrottlingException''"
  have retried: "acquireLock ''a'' (DynamoLockingManager_object (FailingDocumentClient ?e) ?mgr)
          2 400 (\<lparr>store = (), clock = 0, console = []\<rparr>, []) =
       (Inl (AcquireLockError ''Could not acquire lock on path a.''),
        \<lparr>store = (), clock = 0,
         console =
           [ConsoleErrorJSON ''[Error][DynamoLockingManager.lock] '' ''locks'' ?e,
            ConsoleErrorJSON ''[Error][DynamoLockingManager.lock] '' ''locks'' ?e]\<rparr>,
        [400, 400])"
    by code_simp
  let ?w = "\<lparr>store = (), clock = 0, console = []\<rparr>"
  let ?held = "\<lparr>store = [''locks'' \<mapsto> [''a'' \<mapsto> \<lparr>item_id = ''a'', createdAt = 0, expireAt = 900\<rparr>]],
                clock = 0, console = []\<rparr>"
  have p: "fst (dynamoDb_put (FailingDocumentClient ?e) (tableName ?mgr)
              \<lparr>item_id = ''a'', createdAt = getTimestamp ?w,
               expireAt = getTimestamp ?w + timeToLiveDurationInSeconds ?mgr\<rparr>
              ''attribute_not_exists(id)'' (store ?w)) = Inl ?e"
    by (simp add: FailingDocumentClient_def)
  have d: "fst (dynamoDb_delete (FailingDocumentClient ?e) (tableName ?mgr) ''a''
              ''attribute_exists(id)'' (store ?w)) = Inl ?e"
    by (simp add: FailingDocumentClient_def)
  have g: "fst (dynamoDb_get (FailingDocumentClient ?e) (tableName ?mgr) ''a'' (store ?w)) = Inl ?e"
    by (simp add: FailingDocumentClient_def)
  have c: "fst (dynamoDb_put MemoryDocumentClient (tableName ?mgr)
              \<lparr>item_id = ''a'', createdAt = getTimestamp ?held,
               expireAt = getTimestamp ?held + timeToLiveDurationInSeconds ?mgr\<rparr>
              ''attribute_not_exists(id)'' (store ?held)) =
           Inl (AWSError ''ConditionalCheckFailedException'')"
    by (simp add: MemoryDocumentClient_def)
  from DynamoLockingManager_errors_become_false
         [of "FailingDocumentClient ?e" ?mgr "''a''" ?w ?e] p d g
       DynamoLockingManager_errors_become_false
         [of MemoryDocumentClient ?mgr "''a''" ?held "AWSError ''ConditionalCheckFailedException''"] c
       retried
  show ?thesis by blast
qed

section \<open>Properties of LocalFileStorageManager\<close>



lemma LocalFileStorageManager_read_total:
  "\<exists>content. fst (LocalFileStorageManager_read node rootDir p d w) = Inr content"
  by (auto simp: LocalFileStorageManager_read_def Let_def split: prod.splits sum.splits)


lemma LocalFileStorageManager_read_failed:
  "fst (readFileSync node (path_join node rootDir p) (store w)) = Inl e \<Longrightarrow>
   fst (LocalFileStorageManager_read node rootDir p d w) = Inr d"
  by (auto simp: LocalFileStorageManager_read_def Let_def split: prod.splits sum.splits)







text \<open>
  Claim C10. \<^verbatim>\<open>read\<close> of the local file manager always resolves to a string, and
  whenever \<^verbatim>\<open>readFileSync\<close> fails, with any error \<open>e\<close>, it resolves to the default
  value it was given.
\<close>

theorem LocalFileStorageManager_read_never_throws:
  "(\<exists>content. fst (LocalFileStorageManager_read node rootDir p default' w) = Inr content)
   \<and> (fst (readFileSync node (path_join node rootDir p) (store w)) = Inl e \<longrightarrow>
        fst (LocalFileStorageManager_read node rootDir p default' w) = Inr default')"
  using LocalFileStorageManager_read_total [of node rootDir p default' w]
    LocalFileStorageManager_read_failed [of node rootDir p w e default']
  by blast

text \<open>A permission error, and reading a directory: both give the fallback.\<close>

theorem LocalFileStorageManager_read_never_throws_witness:
  "fst (readFileSync (FailingFs (ErrnoException ''EACCES''))
          (path_join (FailingFs (ErrnoException ''EACCES'')) ''/data'' ''a.txt'')
          (store \<lparr>store = (), clock = 0, console = []\<rparr>)) = Inl (ErrnoException ''EACCES'')
   \<and> fst (LocalFileStorageManager_read (FailingFs (ErrnoException ''EACCES'')) ''/data'' ''a.txt''
          ''fallback'' \<lparr>store = (), clock = 0, console = []\<rparr>) = Inr ''fallback''
   \<and> fst (readFileSync MemoryFs (path_join MemoryFs ''/data'' ''sub'')
          (store \<lparr>store = \<lparr>nodes = [''/data'' \<mapsto> Dir, ''/data/sub'' \<mapsto> Dir], read_only = False\<rparr>,
                  clock = 0, console = []\<rparr>)) = Inl (ErrnoException ''EISDIR'')
   \<and> fst (LocalFileStorageManager_read MemoryFs ''/data'' ''sub'' ''fallback''
          \<lparr>store = \<lparr>nodes = [''/data'' \<mapsto> Dir, ''/data/sub'' \<mapsto> Dir], read_only = False\<rparr>,
           clock = 0, console = []\<rparr>) = Inr ''fallback''"
proof -
  let ?w = "\<lparr>store = (), clock = 0, console = []\<rparr>"
  let ?wd = "\<lparr>store = \<lparr>nodes = [''/data'' \<mapsto> Dir, ''/data/sub'' \<mapsto> Dir], read_only = False\<rparr>,
              clock = 0, console = []\<rparr>"
  have denied: "fst (readFileSync (FailingFs (ErrnoException ''EACCES''))
                  (path_join (FailingFs (ErrnoException ''EACCES'')) ''/data'' ''a.txt'') (store ?w)) =
                Inl (ErrnoException ''EACCES'')"
    by (simp add: FailingFs_def)
  have isdir: "fst (readFileSync MemoryFs (path_join MemoryFs ''/data'' ''sub'') (store ?wd)) =
               Inl (ErrnoException ''EISDIR'')"
    by code_simp
  from LocalFileStorageManager_read_never_throws
         [of "FailingFs (ErrnoException ''EACCES'')" "''/data''" "''a.txt''" "''fallback''" ?w
             "ErrnoException ''EACCES''"] denied
       LocalFileStorageManager_read_never_throws
         [of MemoryFs "''/data''" "''sub''" "''fallback''" ?wd "ErrnoException ''EISDIR''"] isdir
  show ?thesis by blast
qed

end
